theory Spec2Isabelle
  imports Main
begin

section \<open>Python values the agents compute with\<close>

text \<open>
  Exceptions are values: a function of the source that may raise returns \<open>exn + 'a\<close>,
  with \<open>Inl\<close> the exception. Only subclasses of Python's \<open>Exception\<close> are modelled
  (the handlers of the source are \<open>except Exception\<close> or bare \<open>except\<close>).
\<close>

datatype exn =
    ValueError string
  | OverflowError string
  | KeyError string
  | AttributeError string
  | StoreError string

fun str_exn :: "exn \<Rightarrow> string" where
  "str_exn (ValueError s) = s"
| "str_exn (OverflowError s) = s"
| "str_exn (KeyError s) = s"
| "str_exn (AttributeError s) = s"
| "str_exn (StoreError s) = s"

definition bind_exn :: "exn + 'a \<Rightarrow> ('a \<Rightarrow> exn + 'b) \<Rightarrow> exn + 'b" where
  "bind_exn r f = (case r of Inl e \<Rightarrow> Inl e | Inr x \<Rightarrow> f x)"

subsection \<open>Dates and datetimes\<close>

text \<open>
  A \<open>datetime.date\<close> is its proleptic Gregorian ordinal (\<open>date.toordinal()\<close>: day 1 is
  0001-01-01, day 3652059 is 9999-12-31). A \<open>datetime.datetime\<close> is the number of
  microseconds since the midnight that starts day 0, so that the order of datetimes is the
  order of integers. \<open>date + timedelta(days=n)\<close> raises \<open>OverflowError\<close> outside the range.
\<close>

type_synonym date = int
type_synonym datetime = int

definition date_min_ordinal :: date where
  "date_min_ordinal = 1"

definition date_max_ordinal :: date where
  "date_max_ordinal = 3652059"

definition valid_date :: "date \<Rightarrow> bool" where
  "valid_date d \<longleftrightarrow> date_min_ordinal \<le> d \<and> d \<le> date_max_ordinal"

definition date_add_days :: "date \<Rightarrow> int \<Rightarrow> exn + date" where
  "date_add_days d n =
     (if valid_date (d + n) then Inr (d + n)
      else Inl (OverflowError ''date value out of range''))"

definition usec_per_day :: int where
  "usec_per_day = 86400000000"

text \<open>\<open>datetime.min.time()\<close> is 00:00:00 and \<open>datetime.max.time()\<close> is 23:59:59.999999.\<close>

definition time_min :: int where
  "time_min = 0"

definition time_max :: int where
  "time_max = 86399999999"

definition combine :: "date \<Rightarrow> int \<Rightarrow> datetime" where
  "combine d t = d * usec_per_day + t"

subsection \<open>Calendar dates and \<open>datetime.strptime(s, '%Y-%m-%d')\<close>\<close>

definition is_leap :: "int \<Rightarrow> bool" where
  "is_leap y \<longleftrightarrow> y mod 4 = 0 \<and> (y mod 100 \<noteq> 0 \<or> y mod 400 = 0)"

definition days_in_month :: "int \<Rightarrow> int \<Rightarrow> int" where
  "days_in_month y m =
     (if m = 2 then (if is_leap y then 29 else 28)
      else if m = 4 \<or> m = 6 \<or> m = 9 \<or> m = 11 then 30 else 31)"

definition days_before_year :: "int \<Rightarrow> int" where
  "days_before_year y = (let k = y - 1 in k * 365 + k div 4 - k div 100 + k div 400)"

fun days_before_month :: "int \<Rightarrow> nat \<Rightarrow> int" where
  "days_before_month y 0 = 0"
| "days_before_month y (Suc k) =
     (if k = 0 then 0 else days_before_month y k + days_in_month y (int k))"

definition ymd2ord :: "int \<Rightarrow> int \<Rightarrow> int \<Rightarrow> date" where
  "ymd2ord y m d = days_before_year y + days_before_month y (nat m) + d"

definition is_digit :: "char \<Rightarrow> bool" where
  "is_digit c \<longleftrightarrow> (48::nat) \<le> of_char c \<and> (of_char c :: nat) \<le> 57"

definition digit_val :: "char \<Rightarrow> int" where
  "digit_val c = int (of_char c) - 48"

text \<open>
  The directive \<open>%m\<close> is the regular expression \<open>1[0-2]|0[1-9]|[1-9]\<close>; in the format it
  is followed by a literal hyphen, so the month is the text up to the next hyphen and has
  one of these three shapes.
\<close>

fun month_field :: "string \<Rightarrow> int option" where
  "month_field [a] =
     (if is_digit a \<and> a \<noteq> CHR ''0'' then Some (digit_val a) else None)"
| "month_field [a, b] =
     (if a = CHR ''1'' \<and> (b = CHR ''0'' \<or> b = CHR ''1'' \<or> b = CHR ''2'')
        then Some (10 + digit_val b)
      else if a = CHR ''0'' \<and> is_digit b \<and> b \<noteq> CHR ''0'' then Some (digit_val b)
      else None)"
| "month_field _ = None"

text \<open>
  The directive \<open>%d\<close> is \<open>3[0-1]|[1-2]\d|0[1-9]|[1-9]| [1-9]\<close> and ends the format:
  the first alternative that matches a prefix of the rest is taken, and text left over
  after it is the \<open>ValueError\<close> "unconverted data remains".
\<close>

fun day_field :: "string \<Rightarrow> int option" where
  "day_field [] = None"
| "day_field [a] =
     (if is_digit a \<and> a \<noteq> CHR ''0'' then Some (digit_val a) else None)"
| "day_field [a, b] =
     (if a = CHR ''3'' \<and> (b = CHR ''0'' \<or> b = CHR ''1'') then Some (30 + digit_val b)
      else if (a = CHR ''1'' \<or> a = CHR ''2'') \<and> is_digit b
        then Some (10 * digit_val a + digit_val b)
      else if a = CHR ''0'' \<and> is_digit b \<and> b \<noteq> CHR ''0'' then Some (digit_val b)
      else if a = CHR '' '' \<and> is_digit b \<and> b \<noteq> CHR ''0'' then Some (digit_val b)
      else None)"
| "day_field _ = None"

definition strptime_ymd :: "string \<Rightarrow> exn + datetime" where
  "strptime_ymd s =
     (case s of
        y1 # y2 # y3 # y4 # h # rest \<Rightarrow>
          (if is_digit y1 \<and> is_digit y2 \<and> is_digit y3 \<and> is_digit y4 \<and> h = CHR ''-''
           then
             (let y = 1000 * digit_val y1 + 100 * digit_val y2 + 10 * digit_val y3
                        + digit_val y4;
                  ms = takeWhile (\<lambda>c. c \<noteq> CHR ''-'') rest;
                  ds = drop (Suc (length ms)) rest
              in if length ms = length rest then Inl (ValueError ''does not match format'')
                 else
                   (case (month_field ms, day_field ds) of
                      (Some m, Some d) \<Rightarrow>
                        (if 1 \<le> y \<and> d \<le> days_in_month y m
                         then Inr (combine (ymd2ord y m d) time_min)
                         else Inl (ValueError ''out of range''))
                    | _ \<Rightarrow> Inl (ValueError ''does not match format'')))
           else Inl (ValueError ''does not match format''))
      | _ \<Rightarrow> Inl (ValueError ''does not match format''))"

subsection \<open>Strings: lower case, \<open>re.search\<close> on alternatives of literals, SQL \<open>LIKE\<close>\<close>

text \<open>
  Characters are bytes; \<open>lower\<close> is the ASCII lower case (\<open>str.lower()\<close> and SQL's
  \<open>lower()\<close> agree with it on ASCII text).
\<close>

definition lower_char :: "char \<Rightarrow> char" where
  "lower_char c =
     (if (65::nat) \<le> of_char c \<and> (of_char c :: nat) \<le> 90
      then (case c of Char b0 b1 b2 b3 b4 b5 b6 b7 \<Rightarrow> Char b0 b1 b2 b3 b4 True b6 b7)
      else c)"

definition lower :: "string \<Rightarrow> string" where
  "lower s = map lower_char s"

fun startswith :: "string \<Rightarrow> string \<Rightarrow> bool" where
  "startswith s [] = True"
| "startswith [] (k # ks) = False"
| "startswith (c # cs) (k # ks) = (c = k \<and> startswith cs ks)"

text \<open>
  \<open>re.search(r'(k1|k2|...)', s)\<close> for literal alternatives: scan the positions of
  \<open>s\<close> from the left and try the alternatives at each one. The result is used only
  for its truth value.
\<close>

fun re_search :: "string list \<Rightarrow> string \<Rightarrow> bool" where
  "re_search ks [] = list_ex (startswith []) ks"
| "re_search ks (c # cs) = (list_ex (startswith (c # cs)) ks \<or> re_search ks cs)"

text \<open>The declarative reading of "the text contains a marker of the set".\<close>

definition contains_marker :: "string list \<Rightarrow> string \<Rightarrow> bool" where
  "contains_marker ks s \<longleftrightarrow> (\<exists>k \<in> set ks. \<exists>u v. s = u @ k @ v)"

text \<open>
  SQL \<open>LIKE\<close>: \<open>%\<close> matches any run of characters, \<open>_\<close> any single one. SQLAlchemy's
  \<open>column.ilike(p)\<close> is \<open>lower(column) LIKE lower(p)\<close>.
\<close>

fun like :: "string \<Rightarrow> string \<Rightarrow> bool" where
  "like [] s = (s = [])"
| "like (p # ps) [] = (p = CHR ''%'' \<and> like ps [])"
| "like (p # ps) (c # cs) =
     (if p = CHR ''%'' then like ps (c # cs) \<or> like (p # ps) cs
      else (p = CHR ''_'' \<or> p = c) \<and> like ps cs)"

definition ilike :: "string \<Rightarrow> string \<Rightarrow> bool" where
  "ilike s p = like (lower p) (lower s)"


definition sql_limit :: "int \<Rightarrow> 'a list \<Rightarrow> 'a list" where
  \<comment> \<open>\<open>LIMIT n\<close>; SQLite reads a negative \<open>n\<close> as no bound.\<close>
  "sql_limit n xs = (if n < 0 then xs else take (nat n) xs)"

section \<open>The meeting store (\<open>database/models.py\<close>)\<close>

text \<open>
  A row of the table \<open>meetings\<close>. The JSON columns are nullable; the weather conditions
  are kept as opaque text. The store is the list of rows in insertion order.
\<close>

record meeting =
  m_id :: int
  m_title :: string
  m_location :: string
  m_scheduled_date :: datetime
  m_participants :: "string list option"
  m_weather_conditions :: "string option"
  m_weather_decision :: "string option"
  m_status :: "string option"
  m_created_at :: "datetime option"

text \<open>
  \<open>Meeting.to_dict()\<close>. The dictionary holds the datetimes themselves; their rendering by
  \<open>isoformat()\<close> is not modelled.
\<close>

record meeting_dict =
  d_id :: int
  d_title :: string
  d_location :: string
  d_scheduled_date :: "datetime option"
  d_participants :: "string list"
  d_weather_conditions :: "string option"
  d_weather_decision :: "string option"
  d_status :: "string option"
  d_created_at :: "datetime option"

definition to_dict :: "meeting \<Rightarrow> meeting_dict" where
  "to_dict m =
     \<lparr> d_id = m_id m,
       d_title = m_title m,
       d_location = m_location m,
       d_scheduled_date = Some (m_scheduled_date m),
       d_participants = (case m_participants m of None \<Rightarrow> [] | Some ps \<Rightarrow> ps),
       d_weather_conditions = m_weather_conditions m,
       d_weather_decision = m_weather_decision m,
       d_status = m_status m,
       d_created_at = m_created_at m \<rparr>"

definition in_range :: "datetime \<Rightarrow> datetime \<Rightarrow> meeting \<Rightarrow> bool" where
  \<comment> \<open>\<open>Meeting.scheduled_date >= s, Meeting.scheduled_date <= e\<close>\<close>
  "in_range s e m \<longleftrightarrow> s \<le> m_scheduled_date m \<and> m_scheduled_date m \<le> e"

text \<open>
  \<open>Meeting.participants.any()\<close>: \<open>participants\<close> is a \<open>Column(JSON)\<close>, not a
  relationship, and the comparator of a JSON column has no method \<open>any\<close>. The attribute
  lookup raises \<open>AttributeError\<close> while the filter expression is built, before any row is
  read; no row predicate results. The text of the exception is written without its
  quotation marks.
\<close>

definition no_attribute_any :: exn where
  "no_attribute_any =
     AttributeError (''Neither InstrumentedAttribute object nor Comparator object ''
       @ ''associated with Meeting.participants has an attribute any'')"

definition participants_any :: "exn + (meeting \<Rightarrow> bool)" where
  "participants_any = Inl no_attribute_any"

section \<open>\<open>agents/database_agent.py\<close>: class \<open>DatabaseAgent\<close>\<close>

definition pat_tomorrow :: "string list" where
  "pat_tomorrow = [''tomorrow'', ''next day'', ''day after'']"

definition pat_today :: "string list" where
  "pat_today = [''today'', ''current day'', ''now'']"

definition pat_week :: "string list" where
  "pat_week = [''week'', ''next week'', ''this week'', ''weekly'']"

definition pat_all :: "string list" where
  "pat_all = [''all'', ''every'', ''list'', ''show'']"

definition pat_review :: "string list" where
  "pat_review = [''review'', ''retrospective'', ''check-in'']"

definition pat_team :: "string list" where
  "pat_team = [''team'', ''group'', ''department'']"

definition pat_scheduled :: "string list" where
  "pat_scheduled = [''scheduled'', ''planned'', ''arranged'']"

text \<open>
  The date filter is a dictionary with the key \<open>type\<close> and, except for the type
  \<open>all\<close>, the keys \<open>date\<close> (today and tomorrow only), \<open>start_date\<close> and \<open>end_date\<close>.
  A key that is absent is \<open>None\<close>.
\<close>

record date_filter =
  df_type :: "string option"
  df_date :: "date option"
  df_start_date :: "datetime option"
  df_end_date :: "datetime option"

text \<open>
  \<open>_extract_date_filter(query)\<close>; \<open>today\<close> is \<open>datetime.now().date()\<close>, read from the
  clock by the source and a parameter here.
\<close>

definition extract_date_filter :: "date \<Rightarrow> string \<Rightarrow> exn + date_filter" where
  "extract_date_filter today query =
     (if re_search pat_today query then
        Inr \<lparr> df_type = Some ''today'', df_date = Some today,
              df_start_date = Some (combine today time_min),
              df_end_date = Some (combine today time_max) \<rparr>
      else if re_search pat_tomorrow query then
        bind_exn (date_add_days today 1) (\<lambda>tomorrow.
          Inr \<lparr> df_type = Some ''tomorrow'', df_date = Some tomorrow,
                df_start_date = Some (combine tomorrow time_min),
                df_end_date = Some (combine tomorrow time_max) \<rparr>)
      else if re_search pat_week query then
        bind_exn (date_add_days today 7) (\<lambda>end_date.
          Inr \<lparr> df_type = Some ''week'', df_date = None,
                df_start_date = Some (combine today time_min),
                df_end_date = Some (combine end_date time_max) \<rparr>)
      else
        Inr \<lparr> df_type = Some ''all'', df_date = None,
              df_start_date = None, df_end_date = None \<rparr>)"

definition extract_meeting_type :: "string \<Rightarrow> string" where
  "extract_meeting_type query =
     (if re_search pat_review query then ''review''
      else if re_search pat_team query then ''team''
      else ''any'')"

record params =
  p_date_filter :: "date_filter option"
  p_meeting_type :: "string option"
  p_limit :: "int option"

definition parse_query :: "date \<Rightarrow> string \<Rightarrow> exn + (string \<times> params)" where
  "parse_query today query =
     (let query_lower = lower query;
          query_type =
            (if re_search [''show'', ''list'', ''get'', ''find''] query_lower
               then ''get_meetings''
             else if re_search [''do we have'', ''is there'', ''any meeting''] query_lower
               then ''check_meeting''
             else if re_search [''how many'', ''count'', ''number''] query_lower
               then ''count_meetings''
             else ''unknown'')
      in bind_exn (extract_date_filter today query_lower) (\<lambda>df.
           Inr (query_type,
                \<lparr> p_date_filter = Some df,
                  p_meeting_type = Some (extract_meeting_type query_lower),
                  p_limit = Some 10 \<rparr>)))"

text \<open>The dictionaries that \<open>_get_meetings_query\<close> and \<open>get_meetings\<close> build by hand.\<close>

record agent_meeting_dict =
  a_id :: int
  a_title :: string
  a_location :: string
  a_scheduled_date :: datetime
  a_participants :: "string list option"
  a_status :: "string option"

definition agent_dict :: "meeting \<Rightarrow> agent_meeting_dict" where
  "agent_dict m =
     \<lparr> a_id = m_id m, a_title = m_title m, a_location = m_location m,
       a_scheduled_date = m_scheduled_date m, a_participants = m_participants m,
       a_status = m_status m \<rparr>"

definition empty_date_filter :: date_filter where
  \<comment> \<open>the default \<open>{}\<close> of \<open>params.get('date_filter', {})\<close>\<close>
  "empty_date_filter =
     \<lparr> df_type = None, df_date = None, df_start_date = None, df_end_date = None \<rparr>"

definition filter_dates :: "date_filter \<Rightarrow> meeting list \<Rightarrow> exn + meeting list" where
  \<comment> \<open>\<open>date_filter['start_date']\<close> and \<open>date_filter['end_date']\<close>, then the two comparisons\<close>
  "filter_dates df rows =
     (case df_start_date df of
        None \<Rightarrow> Inl (KeyError ''start_date'')
      | Some s \<Rightarrow>
          (case df_end_date df of
             None \<Rightarrow> Inl (KeyError ''end_date'')
           | Some e \<Rightarrow> Inr (filter (in_range s e) rows)))"

text \<open>
  The meeting type filter of \<open>_get_meetings_query\<close>: building the clause for
  \<open>team\<close> evaluates \<open>Meeting.participants.any()\<close> and raises what it raises.
\<close>

definition agent_type_clause :: "string option \<Rightarrow> exn + (meeting \<Rightarrow> bool)" where
  "agent_type_clause meeting_type =
     (if meeting_type = Some ''review'' then
        Inr (\<lambda>m. ilike (m_title m) ''%review%'' \<or> ilike (m_title m) ''%retro%'')
      else if meeting_type = Some ''team'' then
        bind_exn participants_any (\<lambda>any_participant.
          Inr (\<lambda>m. ilike (m_title m) ''%team%'' \<or> any_participant m))
      else Inr (\<lambda>m. True))"

definition get_meetings_query :: "params \<Rightarrow> meeting list \<Rightarrow> exn + agent_meeting_dict list" where
  "get_meetings_query ps db_session =
     (let date_filter = (case p_date_filter ps of None \<Rightarrow> empty_date_filter | Some df \<Rightarrow> df)
      in bind_exn
           (if df_type date_filter = Some ''today'' then filter_dates date_filter db_session
            else if df_type date_filter = Some ''tomorrow'' then filter_dates date_filter db_session
            else if df_type date_filter = Some ''week'' then filter_dates date_filter db_session
            else Inr db_session)
           (\<lambda>query.
              bind_exn (agent_type_clause (p_meeting_type ps)) (\<lambda>type_clause.
                let query' = filter type_clause query;
                    meetings = sql_limit (case p_limit ps of None \<Rightarrow> 10 | Some n \<Rightarrow> n) query'
                in Inr (map agent_dict meetings))))"

record check_result =
  ck_exists :: bool
  ck_count :: nat
  ck_meetings :: "agent_meeting_dict list"

definition check_meeting_query :: "params \<Rightarrow> meeting list \<Rightarrow> exn + check_result" where
  "check_meeting_query ps db_session =
     bind_exn (get_meetings_query ps db_session) (\<lambda>meetings.
       Inr \<lparr> ck_exists = (length meetings > 0), ck_count = length meetings,
             ck_meetings = meetings \<rparr>)"

record count_result =
  cn_count :: nat
  cn_period :: string
  cn_meeting_type :: string

definition count_meetings_query :: "params \<Rightarrow> meeting list \<Rightarrow> exn + count_result" where
  "count_meetings_query ps db_session =
     bind_exn (get_meetings_query ps db_session) (\<lambda>meetings.
       Inr \<lparr> cn_count = length meetings,
             cn_period =
               (case p_date_filter ps of
                  None \<Rightarrow> ''all''
                | Some df \<Rightarrow> (case df_type df of None \<Rightarrow> ''all'' | Some t \<Rightarrow> t)),
             cn_meeting_type = (case p_meeting_type ps of None \<Rightarrow> ''any'' | Some t \<Rightarrow> t) \<rparr>)"

text \<open>
  \<open>DatabaseAgent.get_meetings(db_session, date)\<close>: whatever the \<open>try\<close> block raises is
  dropped by \<open>except: pass\<close>, and the query stays without a date clause.
\<close>

definition agent_target_date :: "date \<Rightarrow> string \<Rightarrow> exn + date" where
  "agent_target_date today date =
     (if date = ''today'' then Inr today
      else if date = ''tomorrow'' then date_add_days today 1
      else bind_exn (strptime_ymd date) (\<lambda>dt. Inr (dt div usec_per_day)))"

definition agent_get_meetings ::
  "date \<Rightarrow> meeting list \<Rightarrow> string option \<Rightarrow> agent_meeting_dict list" where
  "agent_get_meetings today db_session date =
     (let query =
        (case date of
           None \<Rightarrow> db_session
         | Some ds \<Rightarrow>
             (if ds = [] then db_session
              else
                (case agent_target_date today ds of
                   Inr target_date \<Rightarrow>
                     filter (in_range (combine target_date time_min)
                                      (combine target_date time_max)) db_session
                 | Inl _ \<Rightarrow> db_session)))
      in map agent_dict query)"

section \<open>\<open>tools/database_tool.py\<close>: class \<open>DatabaseTool\<close>\<close>

text \<open>
  Two rows of the pattern table of \<open>DatabaseTool.__init__\<close>: the alternatives of
  \<open>date_keywords['yesterday']\<close> and of \<open>meeting_keywords['client']\<close>. No method of
  the class in the source reads the table.
\<close>

definition date_keywords_yesterday :: "string list" where
  "date_keywords_yesterday = [''yesterday'', ''previous day'', ''day before'']"

definition meeting_keywords_client :: "string list" where
  "meeting_keywords_client = [''client'', ''customer'', ''partner'', ''external'']"

text \<open>
  The parameters that \<open>_execute_get_meetings\<close> reads: a date filter with the keys
  \<open>type\<close>, \<open>start\<close> and \<open>end\<close>, and the keys \<open>meeting_type\<close>, \<open>location\<close> and
  \<open>limit\<close>; each may be absent.
\<close>

record tool_date_filter =
  tf_type :: "string option"
  tf_start :: "datetime option"
  tf_end :: "datetime option"

record tool_params =
  tp_date_filter :: "tool_date_filter option"
  tp_meeting_type :: "string option"
  tp_location :: "string option"
  tp_limit :: "int option"

record filters_applied =
  fa_date_range :: "string option"
  fa_meeting_type :: "string option"
  fa_location :: "string option"

record get_result =
  gr_count :: nat
  gr_meetings :: "meeting_dict list"
  gr_filters_applied :: filters_applied

definition empty_tool_date_filter :: tool_date_filter where
  "empty_tool_date_filter = \<lparr> tf_type = None, tf_start = None, tf_end = None \<rparr>"

definition location_clause :: "string option \<Rightarrow> meeting \<Rightarrow> bool" where
  \<comment> \<open>\<open>if location: query.filter(Meeting.location.ilike(f'%{location}%'))\<close>\<close>
  "location_clause location m =
     (case location of
        None \<Rightarrow> True
      | Some l \<Rightarrow> (if l = [] then True else ilike (m_location m) (''%'' @ l @ ''%'')))"

definition tool_type_clause :: "string option \<Rightarrow> meeting \<Rightarrow> bool" where
  "tool_type_clause meeting_type m =
     (if meeting_type = Some ''review'' then ilike (m_title m) ''%review%''
      else if meeting_type = Some ''team'' then ilike (m_title m) ''%team%''
      else True)"

text \<open>
  \<open>_execute_get_meetings\<close>: the clauses are applied one after the other, then
  \<open>ORDER BY scheduled_date ASC\<close> and \<open>LIMIT\<close>. Rows with the same scheduled date keep
  the order of the store.
\<close>

definition execute_get_meetings :: "tool_params \<Rightarrow> meeting list \<Rightarrow> get_result" where
  "execute_get_meetings ps db =
     (let date_filter =
            (case tp_date_filter ps of None \<Rightarrow> empty_tool_date_filter | Some df \<Rightarrow> df);
          query1 =
            (case (tf_start date_filter, tf_end date_filter) of
               (Some s, Some e) \<Rightarrow> filter (in_range s e) db
             | _ \<Rightarrow> db);
          meeting_type = tp_meeting_type ps;
          query2 = filter (tool_type_clause meeting_type) query1;
          location = tp_location ps;
          query3 = filter (location_clause location) query2;
          meetings =
            sql_limit (case tp_limit ps of None \<Rightarrow> 10 | Some n \<Rightarrow> n)
              (sort_key m_scheduled_date query3)
      in \<lparr> gr_count = length meetings,
           gr_meetings = map to_dict meetings,
           gr_filters_applied =
             \<lparr> fa_date_range = tf_type date_filter,
               fa_meeting_type = meeting_type,
               fa_location = location \<rparr> \<rparr>)"

record tool_count_result =
  tc_count :: nat
  tc_period :: string
  tc_meeting_type :: string
  tc_location :: string

definition execute_count_meetings :: "tool_params \<Rightarrow> meeting list \<Rightarrow> tool_count_result" where
  "execute_count_meetings ps db =
     (let result = execute_get_meetings ps db
      in \<lparr> tc_count = gr_count result,
           tc_period =
             (case tp_date_filter ps of
                None \<Rightarrow> ''all''
              | Some df \<Rightarrow> (case tf_type df of None \<Rightarrow> ''all'' | Some t \<Rightarrow> t)),
           tc_meeting_type = (case tp_meeting_type ps of None \<Rightarrow> ''all'' | Some t \<Rightarrow> t),
           tc_location = (case tp_location ps of None \<Rightarrow> ''all'' | Some l \<Rightarrow> l) \<rparr>)"

text \<open>
  \<open>DatabaseTool.get_meetings(db, date, location)\<close>, the function behind
  \<open>/api/meetings\<close>. The target date is computed inside \<open>try\<close>; \<open>except: pass\<close> leaves
  the query without a date clause.
\<close>

definition tool_target_date :: "date \<Rightarrow> string \<Rightarrow> exn + date" where
  "tool_target_date today date =
     (if date = ''today'' then Inr today
      else if date = ''tomorrow'' then date_add_days today 1
      else if date = ''yesterday'' then date_add_days today (- 1)
      else bind_exn (strptime_ymd date) (\<lambda>dt. Inr (dt div usec_per_day)))"

definition tool_get_meetings ::
  "date \<Rightarrow> meeting list \<Rightarrow> string option \<Rightarrow> string option \<Rightarrow> meeting_dict list" where
  "tool_get_meetings today db date location =
     (let query1 =
            (case date of
               None \<Rightarrow> db
             | Some ds \<Rightarrow>
                 (if ds = [] then db
                  else
                    (case tool_target_date today ds of
                       Inr target_date \<Rightarrow>
                         filter (in_range (combine target_date time_min)
                                          (combine target_date time_max)) db
                     | Inl _ \<Rightarrow> db)));
          query2 = filter (location_clause location) query1
      in map to_dict (sort_key m_scheduled_date query2))"

section \<open>\<open>agents/scheduling_agent.py\<close>: \<open>SchedulingAgent._parse_date\<close>\<close>

definition parse_date :: "date \<Rightarrow> string \<Rightarrow> exn + datetime" where
  "parse_date today date_str =
     (if date_str = ''today'' then Inr (combine today time_min)
      else if date_str = ''tomorrow'' then
        bind_exn (date_add_days today 1) (\<lambda>tomorrow. Inr (combine tomorrow time_min))
      else if date_str = ''yesterday'' then
        bind_exn (date_add_days today (- 1)) (\<lambda>yesterday. Inr (combine yesterday time_min))
      else
        (case strptime_ymd date_str of
           Inr dt \<Rightarrow> Inr dt
         | Inl _ \<Rightarrow>
             bind_exn (date_add_days today 1) (\<lambda>tomorrow. Inr (combine tomorrow time_min))))"

section \<open>\<open>agents/orchestrator.py\<close>: class \<open>OrchestratorAgent\<close>\<close>

text \<open>
  A response is a dictionary from strings to values. The session is the SQLAlchemy session
  as \<open>_save_conversation\<close> uses it: \<open>add\<close> queues a row, \<open>commit\<close> writes the queue and
  \<open>rollback\<close> drops it; the last two may raise, which the two error fields record.
\<close>

datatype pyval = PStr string | PInt int | PNone | POther string

type_synonym response = "string \<rightharpoonup> pyval"

record conversation =
  c_conversation_id :: "string option"
  c_user_message :: string
  c_agent_response :: pyval
  c_agent_type :: string
  c_confidence :: pyval

record session =
  s_meetings :: "meeting list"
  s_conversations :: "conversation list"
  s_pending :: "conversation list"
  s_commit_error :: "exn option"
  s_rollback_error :: "exn option"

definition session_add :: "session \<Rightarrow> conversation \<Rightarrow> session" where
  "session_add db c = db\<lparr> s_pending := s_pending db @ [c] \<rparr>"

definition session_commit :: "session \<Rightarrow> exn + session" where
  "session_commit db =
     (case s_commit_error db of
        Some e \<Rightarrow> Inl e
      | None \<Rightarrow>
          Inr (db\<lparr> s_conversations := s_conversations db @ s_pending db, s_pending := [] \<rparr>))"

definition session_rollback :: "session \<Rightarrow> exn + session" where
  "session_rollback db =
     (case s_rollback_error db of
        Some e \<Rightarrow> Inl e
      | None \<Rightarrow> Inr (db\<lparr> s_pending := [] \<rparr>))"

definition save_conversation ::
  "session \<Rightarrow> string option \<Rightarrow> string \<Rightarrow> pyval \<Rightarrow> string \<Rightarrow> pyval \<Rightarrow> exn + session" where
  "save_conversation db conversation_id user_message agent_response agent_type confidence =
     (let conversation =
            \<lparr> c_conversation_id = conversation_id, c_user_message = user_message,
              c_agent_response = agent_response, c_agent_type = agent_type,
              c_confidence = confidence \<rparr>;
          db1 = session_add db conversation
      in case session_commit db1 of
           Inr db2 \<Rightarrow> Inr db2
         | Inl e \<Rightarrow> session_rollback db1)"

text \<open>
  The methods \<open>_determine_agent\<close>, \<open>_handle_weather\<close>, \<open>_handle_document\<close>,
  \<open>_handle_scheduling\<close>, \<open>_handle_database\<close> and \<open>_handle_general\<close> are called by
  \<open>process\<close> and defined nowhere in the source: they are parameters. A handler that takes
  the session returns it in its state after the call.
\<close>

record collaborators =
  determine_agent :: "string \<Rightarrow> exn + string"
  handle_weather :: "string \<Rightarrow> exn + response"
  handle_document :: "string \<Rightarrow> exn + response"
  handle_scheduling :: "string \<Rightarrow> session option \<Rightarrow> exn + response \<times> session option"
  handle_database :: "string \<Rightarrow> session option \<Rightarrow> exn + response \<times> session option"
  handle_general :: "string \<Rightarrow> exn + response"

definition route ::
  "collaborators \<Rightarrow> string \<Rightarrow> string \<Rightarrow> session option \<Rightarrow> exn + response \<times> session option" where
  "route c agent_type message db =
     (if agent_type = ''weather'' then
        bind_exn (handle_weather c message) (\<lambda>r. Inr (r, db))
      else if agent_type = ''document'' then
        bind_exn (handle_document c message) (\<lambda>r. Inr (r, db))
      else if agent_type = ''scheduling'' then handle_scheduling c message db
      else if agent_type = ''database'' then handle_database c message db
      else bind_exn (handle_general c message) (\<lambda>r. Inr (r, db)))"

definition dict_get :: "response \<Rightarrow> string \<Rightarrow> pyval \<Rightarrow> pyval" where
  "dict_get r k d = (case r k of None \<Rightarrow> d | Some v \<Rightarrow> v)"

definition add_metadata :: "response \<Rightarrow> string \<Rightarrow> string option \<Rightarrow> string \<Rightarrow> string \<Rightarrow> response" where
  "add_metadata r agent_type conversation_id now_iso message =
     r(''agent_used'' \<mapsto> PStr agent_type,
       ''conversation_id'' \<mapsto> (case conversation_id of None \<Rightarrow> PNone | Some i \<Rightarrow> PStr i),
       ''timestamp'' \<mapsto> PStr now_iso,
       ''original_message'' \<mapsto> PStr message)"

text \<open>
  The body of the \<open>try\<close> block of \<open>process\<close>; \<open>now_iso\<close> is
  \<open>datetime.now().isoformat()\<close>.
\<close>

definition process_body ::
  "collaborators \<Rightarrow> string \<Rightarrow> string \<Rightarrow> string option \<Rightarrow> session option \<Rightarrow> exn + response" where
  "process_body c now_iso message conversation_id db =
     bind_exn (determine_agent c message) (\<lambda>agent_type.
     bind_exn (route c agent_type message db) (\<lambda>(response, db').
     bind_exn
       (case db' of
          None \<Rightarrow> Inr None
        | Some s \<Rightarrow>
            bind_exn
              (save_conversation s conversation_id message
                 (dict_get response ''response'' (PStr []))
                 agent_type
                 (dict_get response ''confidence'' (PInt 0)))
              (\<lambda>s'. Inr (Some s')))
       (\<lambda>_. Inr (add_metadata response agent_type conversation_id now_iso message))))"

definition error_response :: "exn \<Rightarrow> response" where
  "error_response e =
     [''agent'' \<mapsto> PStr ''error'',
      ''response'' \<mapsto> PStr (''Sorry, I encountered an error: '' @ str_exn e),
      ''confidence'' \<mapsto> PInt 0,
      ''suggestion'' \<mapsto> PStr ''Please try rephrasing your question.'']"

definition process ::
  "collaborators \<Rightarrow> string \<Rightarrow> string \<Rightarrow> string option \<Rightarrow> session option \<Rightarrow> exn + response" where
  "process c now_iso message conversation_id db =
     (case process_body c now_iso message conversation_id db of
        Inr response \<Rightarrow> Inr response
      | Inl e \<Rightarrow> Inr (error_response e))"

text \<open>
  The class as the source has it: looking up a method that is not defined raises
  \<open>AttributeError\<close>.
\<close>

definition missing_method :: "string \<Rightarrow> exn" where
  "missing_method name =
     AttributeError ([CHR 0x27] @ ''OrchestratorAgent'' @ [CHR 0x27]
       @ '' object has no attribute '' @ [CHR 0x27] @ name @ [CHR 0x27])"

definition source_collaborators :: collaborators where
  "source_collaborators =
     \<lparr> determine_agent = (\<lambda>_. Inl (missing_method ''_determine_agent'')),
       handle_weather = (\<lambda>_. Inl (missing_method ''_handle_weather'')),
       handle_document = (\<lambda>_. Inl (missing_method ''_handle_document'')),
       handle_scheduling = (\<lambda>_ _. Inl (missing_method ''_handle_scheduling'')),
       handle_database = (\<lambda>_ _. Inl (missing_method ''_handle_database'')),
       handle_general = (\<lambda>_. Inl (missing_method ''_handle_general'')) \<rparr>"

section \<open>Declarative readings used in the properties\<close>

text \<open>
  The title contains \<open>team\<close> in any letter case; the date clause that
  \<open>_execute_get_meetings\<close> puts on a row, given the date filter.
\<close>

definition title_has_team :: "meeting \<Rightarrow> bool" where
  "title_has_team m \<longleftrightarrow> (\<exists>u v. lower (m_title m) = u @ ''team'' @ v)"

definition tool_date_clause :: "tool_date_filter \<Rightarrow> meeting \<Rightarrow> bool" where
  "tool_date_clause df m \<longleftrightarrow>
     (\<forall>s e. tf_start df = Some s \<and> tf_end df = Some e \<longrightarrow> in_range s e m)"

section \<open>Example data\<close>

definition meeting_a :: meeting where
  "meeting_a =
     \<lparr> m_id = 1, m_title = ''Team Review'', m_location = ''London'',
       m_scheduled_date = combine 739924 43200000000, m_participants = Some [],
       m_weather_conditions = None, m_weather_decision = Some ''good'',
       m_status = Some ''scheduled'', m_created_at = None \<rparr>"

definition meeting_b :: meeting where
  "meeting_b =
     \<lparr> m_id = 2, m_title = ''Standup'', m_location = ''Paris'',
       m_scheduled_date = combine 739924 32400000000, m_participants = Some [''alice''],
       m_weather_conditions = None, m_weather_decision = None,
       m_status = Some ''scheduled'', m_created_at = None \<rparr>"

definition meeting_c :: meeting where
  "meeting_c =
     \<lparr> m_id = 3, m_title = ''Budget'', m_location = ''London'',
       m_scheduled_date = combine 739930 0, m_participants = None,
       m_weather_conditions = None, m_weather_decision = None,
       m_status = None, m_created_at = None \<rparr>"

definition example_store :: "meeting list" where
  "example_store = [meeting_a, meeting_b, meeting_c]"

definition team_params :: params where
  "team_params =
     \<lparr> p_date_filter =
         Some \<lparr> df_type = Some ''all'', df_date = None, df_start_date = None,
                df_end_date = None \<rparr>,
       p_meeting_type = Some ''team'', p_limit = Some 10 \<rparr>"

definition review_params :: params where
  "review_params = team_params \<lparr> p_meeting_type := Some ''review'' \<rparr>"

definition team_tool_params :: tool_params where
  "team_tool_params =
     \<lparr> tp_date_filter = Some \<lparr> tf_type = Some ''all'', tf_start = None, tf_end = None \<rparr>,
       tp_meeting_type = Some ''team'', tp_location = None, tp_limit = Some 10 \<rparr>"

text \<open>
  Collaborators for the examples: messages about meetings go to the database handler,
  whose query fails; the other handlers answer with a greeting. Three sessions: one that
  commits, one whose commit fails, and one whose connection is lost, so that both the commit
  and the rollback fail.
\<close>

definition greeting :: response where
  "greeting = [''response'' \<mapsto> PStr ''Hello! How can I help?'', ''confidence'' \<mapsto> PInt 50]"

definition example_collaborators :: collaborators where
  "example_collaborators =
     \<lparr> determine_agent =
         (\<lambda>message. if re_search [''meeting''] (lower message) then Inr ''database''
                    else Inr ''general''),
       handle_weather = (\<lambda>_. Inr greeting),
       handle_document = (\<lambda>_. Inr greeting),
       handle_scheduling = (\<lambda>_ db. Inr (greeting, db)),
       handle_database = (\<lambda>_ db. Inl (StoreError ''no such table: meetings'')),
       handle_general = (\<lambda>_. Inr greeting) \<rparr>"

definition session_ok :: session where
  "session_ok =
     \<lparr> s_meetings = [], s_conversations = [], s_pending = [],
       s_commit_error = None, s_rollback_error = None \<rparr>"

definition session_commit_fails :: session where
  "session_commit_fails = session_ok \<lparr> s_commit_error := Some (StoreError ''database is locked'') \<rparr>"

definition session_lost :: session where
  "session_lost =
     session_ok \<lparr> s_commit_error := Some (StoreError ''connection lost''),
                 s_rollback_error := Some (StoreError ''connection lost'') \<rparr>"

section \<open>Auxiliary facts\<close>

lemmas example_defs = meeting_a_def meeting_b_def meeting_c_def example_store_def
  team_params_def review_params_def team_tool_params_def

lemma startswith_iff: "startswith s k \<longleftrightarrow> (\<exists>v. s = k @ v)"
  by (induction s k rule: startswith.induct) auto

lemma re_search_iff: "re_search ks s \<longleftrightarrow> contains_marker ks s"
proof (induction s)
  case Nil
  show ?case
    by (auto simp: contains_marker_def list_ex_iff startswith_iff)
next
  case (Cons c cs)
  have "contains_marker ks (c # cs) \<longleftrightarrow>
          (\<exists>k \<in> set ks. \<exists>v. c # cs = k @ v) \<or> contains_marker ks cs"
    unfolding contains_marker_def
  proof (intro iffI)
    assume "\<exists>k\<in>set ks. \<exists>u v. c # cs = u @ k @ v"
    then obtain k u v where k: "k \<in> set ks" and e: "c # cs = u @ k @ v" by blast
    show "(\<exists>k\<in>set ks. \<exists>v. c # cs = k @ v) \<or> (\<exists>k\<in>set ks. \<exists>u v. cs = u @ k @ v)"
    proof (cases u)
      case Nil
      with k e show ?thesis by auto
    next
      case (Cons a u')
      with e have "cs = u' @ k @ v" by simp
      with k show ?thesis by blast
    qed
  next
    assume "(\<exists>k\<in>set ks. \<exists>v. c # cs = k @ v) \<or> (\<exists>k\<in>set ks. \<exists>u v. cs = u @ k @ v)"
    then show "\<exists>k\<in>set ks. \<exists>u v. c # cs = u @ k @ v"
    proof
      assume "\<exists>k\<in>set ks. \<exists>v. c # cs = k @ v"
      then obtain k v where "k \<in> set ks" "c # cs = [] @ k @ v" by auto
      then show ?thesis by blast
    next
      assume "\<exists>k\<in>set ks. \<exists>u v. cs = u @ k @ v"
      then obtain k u v where "k \<in> set ks" "c # cs = (c # u) @ k @ v" by auto
      then show ?thesis by blast
    qed
  qed
  with Cons show ?case
    by (simp add: list_ex_iff startswith_iff)
qed

lemma like_percent: "like (CHR ''%'' # ps) s \<longleftrightarrow> (\<exists>u t. s = u @ t \<and> like ps t)"
proof (induction s)
  case Nil
  show ?case by simp
next
  case (Cons c cs)
  show ?case
  proof
    assume "like (CHR ''%'' # ps) (c # cs)"
    then consider "like ps (c # cs)" | "like (CHR ''%'' # ps) cs" by auto
    then show "\<exists>u t. c # cs = u @ t \<and> like ps t"
    proof cases
      case 1
      then have "c # cs = [] @ (c # cs) \<and> like ps (c # cs)" by simp
      then show ?thesis by blast
    next
      case 2
      with Cons obtain u t where "cs = u @ t" "like ps t" by blast
      then have "c # cs = (c # u) @ t \<and> like ps t" by simp
      then show ?thesis by blast
    qed
  next
    assume "\<exists>u t. c # cs = u @ t \<and> like ps t"
    then obtain u t where e: "c # cs = u @ t" and l: "like ps t" by blast
    show "like (CHR ''%'' # ps) (c # cs)"
    proof (cases u)
      case Nil
      with e have "t = c # cs" by simp
      with l show ?thesis by simp
    next
      case (Cons a u')
      with e have "cs = u' @ t" by simp
      with l Cons.IH have "like (CHR ''%'' # ps) cs" by blast
      then show ?thesis by simp
    qed
  qed
qed

lemma like_literal:
  "p \<noteq> CHR ''%'' \<Longrightarrow> p \<noteq> CHR ''_'' \<Longrightarrow> like (p # ps) s \<longleftrightarrow> (\<exists>t. s = p # t \<and> like ps t)"
  by (cases s) auto

lemma like_percent_end: "like ''%'' s"
  by (induction s) auto

lemma like_team_tail: "like ''team%'' t \<longleftrightarrow> (\<exists>v. t = ''team'' @ v)"
  by (auto simp: like_literal like_percent_end)

lemma like_team: "like ''%team%'' s \<longleftrightarrow> (\<exists>u v. s = u @ ''team'' @ v)"
proof -
  have "like ''%team%'' s \<longleftrightarrow> (\<exists>u t. s = u @ t \<and> like ''team%'' t)"
    by (rule like_percent)
  also have "\<dots> \<longleftrightarrow> (\<exists>u v. s = u @ ''team'' @ v)"
    unfolding like_team_tail by blast
  finally show ?thesis .
qed

lemma ilike_team: "ilike s ''%team%'' \<longleftrightarrow> (\<exists>u v. lower s = u @ ''team'' @ v)"
  by (simp add: ilike_def like_team lower_def lower_char_def)

lemma date_add_days_ok:
  "valid_date (d + n) \<Longrightarrow> date_add_days d n = Inr (d + n)"
  by (simp add: date_add_days_def)

lemma valid_date_succ:
  "valid_date today \<Longrightarrow> today < date_max_ordinal \<Longrightarrow> valid_date (today + 1)"
  by (simp add: valid_date_def)

lemma tool_team_clause: "tool_type_clause (Some ''team'') m \<longleftrightarrow> title_has_team m"
  by (simp add: tool_type_clause_def ilike_team title_has_team_def)

lemma team_query_raises:
  assumes "p_meeting_type qs = Some ''team''"
  shows "\<exists>e. get_meetings_query qs rows = Inl e"
  using assms
  by (simp add: get_meetings_query_def agent_type_clause_def participants_any_def bind_exn_def
      Let_def split: sum.splits)

lemma tool_target_date_fails:
  assumes "date \<noteq> ''today''" and "date \<noteq> ''tomorrow''" and "date \<noteq> ''yesterday''"
    and "strptime_ymd date = Inl e"
  shows "tool_target_date today date = Inl e"
  using assms by (simp add: tool_target_date_def bind_exn_def)

lemma agent_target_date_fails:
  assumes "date \<noteq> ''today''" and "date \<noteq> ''tomorrow''"
    and "strptime_ymd date = Inl e"
  shows "agent_target_date today date = Inl e"
  using assms by (simp add: agent_target_date_def bind_exn_def)

lemmas orchestrator_defs = process_def process_body_def route_def bind_exn_def
  save_conversation_def session_add_def session_commit_def session_rollback_def
  dict_get_def add_metadata_def

lemmas orchestrator_example_defs = example_collaborators_def greeting_def session_ok_def
  session_commit_fails_def session_lost_def

lemma process_cases:
  "process c now message cid db =
     (case process_body c now message cid db of
        Inr r \<Rightarrow> Inr r | Inl e \<Rightarrow> Inr (error_response e))"
  by (simp add: process_def)

lemma error_response_fields:
  "error_response e ''agent'' = Some (PStr ''error'')"
  "error_response e ''confidence'' = Some (PInt 0)"
  "error_response e ''timestamp'' = None"
  "error_response e ''original_message'' = None"
  "error_response e ''agent_used'' = None"
  by (simp_all add: error_response_def)

lemma dom_error_response:
  "dom (error_response e) = {''agent'', ''response'', ''confidence'', ''suggestion''}"
  by (auto simp: error_response_def)

lemma add_metadata_fields:
  "add_metadata r a cid now message ''agent_used'' = Some (PStr a)"
  "add_metadata r a cid now message ''timestamp'' = Some (PStr now)"
  "add_metadata r a cid now message ''original_message'' = Some (PStr message)"
  by (simp_all add: add_metadata_def)

lemma route_Inr:
  assumes "route c a message db = Inr (r0, db')"
  shows "if a = ''weather'' then handle_weather c message = Inr r0
         else if a = ''document'' then handle_document c message = Inr r0
         else if a = ''scheduling'' then (\<exists>d. handle_scheduling c message db = Inr (r0, d))
         else if a = ''database'' then (\<exists>d. handle_database c message db = Inr (r0, d))
         else handle_general c message = Inr r0"
  using assms by (auto simp: route_def bind_exn_def split: sum.splits if_splits)

lemma process_body_Inr:
  assumes "process_body c now message cid db = Inr r"
  shows "\<exists>a r0 db'. determine_agent c message = Inr a
           \<and> route c a message db = Inr (r0, db')
           \<and> r = add_metadata r0 a cid now message"
  using assms
  by (auto simp: process_body_def bind_exn_def split: sum.splits prod.splits option.splits)

text \<open>
  The log write inside \<open>process\<close>: when the rollback of the session returns, the
  outcome of the commit does not reach the response; when the commit and the rollback both
  raise, the exception of the rollback leaves \<open>_save_conversation\<close> and \<open>process\<close>
  answers with the error dictionary.
\<close>

lemma save_conversation_rollback_ok:
  assumes "s_rollback_error s = None"
  shows "\<exists>s'. save_conversation s cid message resp a conf = Inr s'"
  using assms
  by (simp add: save_conversation_def session_add_def session_commit_def session_rollback_def
      Let_def split: option.splits)

lemma save_conversation_rollback_fails:
  assumes "s_commit_error s = Some e1" and "s_rollback_error s = Some e2"
  shows "save_conversation s cid message resp a conf = Inl e2"
  using assms
  by (simp add: save_conversation_def session_add_def session_commit_def session_rollback_def
      Let_def)

lemma log_write_frame:
  assumes "determine_agent c message = Inr a"
    and "route c a message db = Inr (r, Some s)"
    and "s_rollback_error s = None"
  shows "process c now message cid db = Inr (add_metadata r a cid now message)"
proof -
  obtain s' where "save_conversation s cid message (dict_get r ''response'' (PStr [])) a
                     (dict_get r ''confidence'' (PInt 0)) = Inr s'"
    using save_conversation_rollback_ok [OF assms(3)] by blast
  with assms(1,2) show ?thesis
    by (simp add: process_def process_body_def bind_exn_def)
qed

lemma log_write_rollback_failure:
  assumes "determine_agent c message = Inr a"
    and "route c a message db = Inr (r, Some s)"
    and "s_commit_error s = Some e1" and "s_rollback_error s = Some e2"
  shows "process c now message cid db = Inr (error_response e2)"
  using assms save_conversation_rollback_fails [OF assms(3,4)]
  by (simp add: process_def process_body_def bind_exn_def)

section \<open>Properties\<close>

text \<open>
  C1. The count operation is computed from the result of the get operation on the same
  parameters and store: \<open>_execute_count_meetings\<close> returns the \<open>count\<close> of the get
  result, which is the length of its \<open>meetings\<close>; \<open>_count_meetings_query\<close> returns
  the length of the list that \<open>_get_meetings_query\<close> returns, and raises what it raises.
\<close>

theorem count_equals_len_get:
  "tc_count (execute_count_meetings ps db) = length (gr_meetings (execute_get_meetings ps db))
   \<and> (\<forall>ms. get_meetings_query qs rows = Inr ms \<longrightarrow>
         (\<exists>r. count_meetings_query qs rows = Inr r \<and> cn_count r = length ms))
   \<and> (\<forall>e. get_meetings_query qs rows = Inl e \<longrightarrow> count_meetings_query qs rows = Inl e)"
proof (intro conjI allI impI)
  show "tc_count (execute_count_meetings ps db)
          = length (gr_meetings (execute_get_meetings ps db))"
    by (simp add: execute_count_meetings_def execute_get_meetings_def Let_def)
next
  fix ms assume "get_meetings_query qs rows = Inr ms"
  then show "\<exists>r. count_meetings_query qs rows = Inr r \<and> cn_count r = length ms"
    by (simp add: count_meetings_query_def bind_exn_def)
next
  fix e assume "get_meetings_query qs rows = Inl e"
  then show "count_meetings_query qs rows = Inl e"
    by (simp add: count_meetings_query_def bind_exn_def)
qed

text \<open>
  The theorem on the example store: a review query, which returns one row; a team query,
  which raises in both operations; and the count of the team query of \<open>DatabaseTool\<close>.
\<close>

theorem count_equals_len_get_witness:
  "get_meetings_query review_params example_store = Inr [agent_dict meeting_a]
   \<and> (\<exists>r. count_meetings_query review_params example_store = Inr r \<and> cn_count r = 1)
   \<and> get_meetings_query team_params example_store = Inl no_attribute_any
   \<and> count_meetings_query team_params example_store = Inl no_attribute_any
   \<and> tc_count (execute_count_meetings team_tool_params example_store) = 1"
proof -
  have h: "get_meetings_query review_params example_store = Inr [agent_dict meeting_a]"
    by (simp add: get_meetings_query_def example_defs bind_exn_def agent_type_clause_def
        ilike_def lower_def lower_char_def sql_limit_def)
  have e: "get_meetings_query team_params example_store = Inl no_attribute_any"
    by (simp add: get_meetings_query_def example_defs bind_exn_def agent_type_clause_def
        participants_any_def)
  have g: "gr_meetings (execute_get_meetings team_tool_params example_store) = [to_dict meeting_a]"
    by (simp add: execute_get_meetings_def example_defs tool_type_clause_def
        ilike_def lower_def lower_char_def location_clause_def sql_limit_def
        empty_tool_date_filter_def combine_def usec_per_day_def)
  show ?thesis
    using count_equals_len_get [of team_tool_params example_store review_params example_store]
      count_equals_len_get [of team_tool_params example_store team_params example_store] h e g
    by auto
qed

text \<open>
  C6. A text with a tomorrow marker (\<open>tomorrow\<close>, \<open>next day\<close>, \<open>day after\<close>) and no
  today marker (\<open>today\<close>, \<open>current day\<close>, \<open>now\<close>) resolves to the kind
  \<open>tomorrow\<close>, from the midnight of the day after today to the last microsecond of that
  day, whether or not it has a yesterday marker. The clock is a date whose next day exists.
\<close>

theorem tomorrow_marker_resolves_to_tomorrow:
  assumes "contains_marker pat_tomorrow q"
    and "\<not> contains_marker pat_today q"
    and "valid_date today" and "today < date_max_ordinal"
  shows "extract_date_filter today q =
           Inr \<lparr> df_type = Some ''tomorrow'', df_date = Some (today + 1),
                 df_start_date = Some (combine (today + 1) time_min),
                 df_end_date = Some (combine (today + 1) time_max) \<rparr>
         \<and> combine (today + 1) time_min = (today + 1) * usec_per_day
         \<and> combine (today + 1) time_max + 1 = combine (today + 2) time_min"
proof -
  have v: "date_add_days today 1 = Inr (today + 1)"
    using assms(3,4) by (simp add: date_add_days_ok valid_date_succ)
  have "extract_date_filter today q =
           Inr \<lparr> df_type = Some ''tomorrow'', df_date = Some (today + 1),
                 df_start_date = Some (combine (today + 1) time_min),
                 df_end_date = Some (combine (today + 1) time_max) \<rparr>"
    using assms(1,2) v by (simp add: extract_date_filter_def re_search_iff bind_exn_def)
  moreover have "combine (today + 1) time_min = (today + 1) * usec_per_day"
    by (simp add: combine_def time_min_def)
  moreover have "combine (today + 1) time_max + 1 = combine (today + 2) time_min"
    by (simp add: combine_def time_min_def time_max_def usec_per_day_def)
  ultimately show ?thesis by simp
qed

text \<open>
  The theorem at the text \<open>show team meetings tomorrow\<close> on 2026-11-03.
\<close>

theorem tomorrow_marker_resolves_to_tomorrow_witness:
  "contains_marker pat_tomorrow ''show team meetings tomorrow''
   \<and> \<not> contains_marker pat_today ''show team meetings tomorrow''
   \<and> valid_date 739923 \<and> 739923 < date_max_ordinal
   \<and> extract_date_filter 739923 ''show team meetings tomorrow'' =
       Inr \<lparr> df_type = Some ''tomorrow'', df_date = Some 739924,
             df_start_date = Some 63929433600000000,
             df_end_date = Some 63929519999999999 \<rparr>"
proof -
  have h1: "contains_marker pat_tomorrow ''show team meetings tomorrow''"
    unfolding re_search_iff [symmetric] by (simp add: pat_tomorrow_def)
  have h2: "\<not> contains_marker pat_today ''show team meetings tomorrow''"
    unfolding re_search_iff [symmetric] by (simp add: pat_today_def)
  have h3: "valid_date 739923"
    by (simp add: valid_date_def date_min_ordinal_def date_max_ordinal_def)
  have h4: "739923 < date_max_ordinal"
    by (simp add: date_max_ordinal_def)
  show ?thesis
    using tomorrow_marker_resolves_to_tomorrow [OF h1 h2 h3 h4] h1 h2 h3 h4
    by (simp add: combine_def time_min_def time_max_def usec_per_day_def)
qed

text \<open>
  C3, as stated, fails: \<open>_extract_date_filter\<close> has no rule for yesterday. The text
  \<open>meetings yesterday\<close> has a yesterday marker and no today or tomorrow marker, and
  resolves to the kind \<open>all\<close> without bounds.
\<close>

theorem yesterday_marker_counterexample:
  "contains_marker date_keywords_yesterday ''meetings yesterday''
   \<and> \<not> contains_marker pat_today ''meetings yesterday''
   \<and> \<not> contains_marker pat_tomorrow ''meetings yesterday''
   \<and> extract_date_filter 739923 ''meetings yesterday'' =
       Inr \<lparr> df_type = Some ''all'', df_date = None, df_start_date = None,
             df_end_date = None \<rparr>"
  unfolding re_search_iff [symmetric]
  by (simp add: date_keywords_yesterday_def pat_today_def pat_tomorrow_def pat_week_def
      extract_date_filter_def)

text \<open>
  C3, amended. The rules are tested in the order today, tomorrow, week, else all, and the
  first that matches wins; a text with a yesterday marker and none of the today, tomorrow
  and week markers resolves to the kind \<open>all\<close> without bounds.
\<close>

theorem extract_date_filter_rules:
  assumes "valid_date today" and "today + 7 \<le> date_max_ordinal"
  shows "extract_date_filter today q =
           Inr (if contains_marker pat_today q then
                  \<lparr> df_type = Some ''today'', df_date = Some today,
                    df_start_date = Some (combine today time_min),
                    df_end_date = Some (combine today time_max) \<rparr>
                else if contains_marker pat_tomorrow q then
                  \<lparr> df_type = Some ''tomorrow'', df_date = Some (today + 1),
                    df_start_date = Some (combine (today + 1) time_min),
                    df_end_date = Some (combine (today + 1) time_max) \<rparr>
                else if contains_marker pat_week q then
                  \<lparr> df_type = Some ''week'', df_date = None,
                    df_start_date = Some (combine today time_min),
                    df_end_date = Some (combine (today + 7) time_max) \<rparr>
                else
                  \<lparr> df_type = Some ''all'', df_date = None, df_start_date = None,
                    df_end_date = None \<rparr>)
         \<and> (contains_marker date_keywords_yesterday q \<and> \<not> contains_marker pat_today q
              \<and> \<not> contains_marker pat_tomorrow q \<and> \<not> contains_marker pat_week q \<longrightarrow>
             extract_date_filter today q =
               Inr \<lparr> df_type = Some ''all'', df_date = None, df_start_date = None,
                     df_end_date = None \<rparr>)"
proof -
  have v1: "date_add_days today 1 = Inr (today + 1)"
    using assms by (simp add: date_add_days_def valid_date_def)
  have v7: "date_add_days today 7 = Inr (today + 7)"
    using assms by (simp add: date_add_days_def valid_date_def)
  show ?thesis
    using v1 v7 by (simp add: extract_date_filter_def re_search_iff bind_exn_def)
qed

text \<open>
  The amended rules at the texts \<open>the day before\<close> and \<open>meetings this week\<close>.
\<close>

theorem extract_date_filter_rules_witness:
  "valid_date 739923 \<and> 739923 + 7 \<le> date_max_ordinal
   \<and> contains_marker date_keywords_yesterday ''the day before''
   \<and> extract_date_filter 739923 ''the day before'' =
       Inr \<lparr> df_type = Some ''all'', df_date = None, df_start_date = None,
             df_end_date = None \<rparr>
   \<and> extract_date_filter 739923 ''meetings this week'' =
       Inr \<lparr> df_type = Some ''week'', df_date = None,
             df_start_date = Some (combine 739923 time_min),
             df_end_date = Some (combine 739930 time_max) \<rparr>"
proof -
  have h1: "valid_date 739923"
    by (simp add: valid_date_def date_min_ordinal_def date_max_ordinal_def)
  have h2: "739923 + 7 \<le> date_max_ordinal"
    by (simp add: date_max_ordinal_def)
  have y: "contains_marker date_keywords_yesterday ''the day before''"
    unfolding re_search_iff [symmetric] by (simp add: date_keywords_yesterday_def)
  have n1: "\<not> contains_marker pat_today ''the day before''"
    unfolding re_search_iff [symmetric] by (simp add: pat_today_def)
  have n2: "\<not> contains_marker pat_tomorrow ''the day before''"
    unfolding re_search_iff [symmetric] by (simp add: pat_tomorrow_def)
  have n3: "\<not> contains_marker pat_week ''the day before''"
    unfolding re_search_iff [symmetric] by (simp add: pat_week_def)
  have w1: "\<not> contains_marker pat_today ''meetings this week''"
    unfolding re_search_iff [symmetric] by (simp add: pat_today_def)
  have w2: "\<not> contains_marker pat_tomorrow ''meetings this week''"
    unfolding re_search_iff [symmetric] by (simp add: pat_tomorrow_def)
  have w3: "contains_marker pat_week ''meetings this week''"
    unfolding re_search_iff [symmetric] by (simp add: pat_week_def)
  show ?thesis
    using extract_date_filter_rules [OF h1 h2, of "''the day before''"]
      extract_date_filter_rules [OF h1 h2, of "''meetings this week''"]
      h1 h2 y n1 n2 n3 w1 w2 w3
    by simp
qed

text \<open>
  C5, as stated, fails: \<open>_extract_meeting_type\<close> tests the review and the team
  keywords only. The text \<open>client meetings\<close> has a client keyword and no review or team
  keyword, and its category is \<open>any\<close>.
\<close>

theorem client_keyword_counterexample:
  "contains_marker meeting_keywords_client ''client meetings''
   \<and> \<not> contains_marker pat_review ''client meetings''
   \<and> \<not> contains_marker pat_team ''client meetings''
   \<and> extract_meeting_type ''client meetings'' = ''any''"
  unfolding re_search_iff [symmetric]
  by (simp add: meeting_keywords_client_def pat_review_def pat_team_def
      extract_meeting_type_def)

text \<open>
  C5, amended. The category is \<open>review\<close> if a review keyword occurs, else \<open>team\<close>
  if a team keyword occurs, else \<open>any\<close>; a text with a client keyword and no review or
  team keyword has the category \<open>any\<close>.
\<close>

theorem extract_meeting_type_rules:
  "extract_meeting_type q =
     (if contains_marker pat_review q then ''review''
      else if contains_marker pat_team q then ''team''
      else ''any'')
   \<and> (contains_marker meeting_keywords_client q \<and> \<not> contains_marker pat_review q
        \<and> \<not> contains_marker pat_team q \<longrightarrow> extract_meeting_type q = ''any'')"
  by (simp add: extract_meeting_type_def re_search_iff)

text \<open>
  The amended rules at the texts \<open>external partner call\<close> and \<open>team review\<close>.
\<close>

theorem extract_meeting_type_rules_witness:
  "contains_marker meeting_keywords_client ''external partner call''
   \<and> \<not> contains_marker pat_review ''external partner call''
   \<and> \<not> contains_marker pat_team ''external partner call''
   \<and> extract_meeting_type ''external partner call'' = ''any''
   \<and> extract_meeting_type ''team review'' = ''review''"
proof -
  have c: "contains_marker meeting_keywords_client ''external partner call''"
    unfolding re_search_iff [symmetric] by (simp add: meeting_keywords_client_def)
  have n1: "\<not> contains_marker pat_review ''external partner call''"
    unfolding re_search_iff [symmetric] by (simp add: pat_review_def)
  have n2: "\<not> contains_marker pat_team ''external partner call''"
    unfolding re_search_iff [symmetric] by (simp add: pat_team_def)
  have r: "contains_marker pat_review ''team review''"
    unfolding re_search_iff [symmetric] by (simp add: pat_review_def)
  show ?thesis
    using extract_meeting_type_rules [of "''external partner call''"]
      extract_meeting_type_rules [of "''team review''"] c n1 n2 r
    by simp
qed

text \<open>
  C7. For a date string that is none of \<open>today\<close>, \<open>tomorrow\<close>, \<open>yesterday\<close> and that
  \<open>strptime\<close> rejects, \<open>_parse_date\<close> returns the midnight of the day after today,
  which is what it returns for \<open>tomorrow\<close>. The clock is a date whose next day exists.
\<close>

theorem parse_date_fallback:
  assumes "date_str \<noteq> ''today''" and "date_str \<noteq> ''tomorrow''"
    and "date_str \<noteq> ''yesterday''"
    and "strptime_ymd date_str = Inl e"
    and "valid_date today" and "today < date_max_ordinal"
  shows "parse_date today date_str = Inr (combine (today + 1) time_min)
         \<and> parse_date today date_str = parse_date today ''tomorrow''"
proof -
  have v: "date_add_days today 1 = Inr (today + 1)"
    using assms(5,6) by (simp add: date_add_days_ok valid_date_succ)
  show ?thesis
    using assms(1-4) v by (simp add: parse_date_def bind_exn_def)
qed

text \<open>
  The theorem at the string \<open>2024-13-45\<close> on 2026-11-03.
\<close>

theorem parse_date_fallback_witness:
  "strptime_ymd ''2024-13-45'' = Inl (ValueError ''does not match format'')
   \<and> valid_date 739923 \<and> 739923 < date_max_ordinal
   \<and> parse_date 739923 ''2024-13-45'' = Inr (739924 * 86400000000)"
proof -
  have h1: "''2024-13-45'' \<noteq> ''today''" by simp
  have h2: "''2024-13-45'' \<noteq> ''tomorrow''" by simp
  have h3: "''2024-13-45'' \<noteq> ''yesterday''" by simp
  have h4: "strptime_ymd ''2024-13-45'' = Inl (ValueError ''does not match format'')"
    by (simp add: strptime_ymd_def is_digit_def digit_val_def)
  have h5: "valid_date 739923"
    by (simp add: valid_date_def date_min_ordinal_def date_max_ordinal_def)
  have h6: "739923 < date_max_ordinal"
    by (simp add: date_max_ordinal_def)
  show ?thesis
    using parse_date_fallback [OF h1 h2 h3 h4 h5 h6] h4 h5 h6
    by (simp add: combine_def time_min_def usec_per_day_def)
qed

text \<open>
  C4, as stated, fails on \<open>DatabaseTool._execute_get_meetings\<close>: with the category
  \<open>team\<close> it filters on the title alone, and a row with participants whose title does not
  contain \<open>team\<close> is not returned.
\<close>

theorem team_filter_counterexample:
  "tp_meeting_type team_tool_params = Some ''team''
   \<and> m_participants meeting_b = Some [''alice'']
   \<and> gr_meetings (execute_get_meetings team_tool_params [meeting_b]) = []
   \<and> gr_count (execute_get_meetings team_tool_params [meeting_b]) = 0"
  by (simp add: execute_get_meetings_def example_defs tool_type_clause_def
      ilike_def lower_def lower_char_def location_clause_def sql_limit_def
      empty_tool_date_filter_def)

text \<open>
  C4, amended. With the category \<open>team\<close>, the meeting type filter of
  \<open>DatabaseTool._execute_get_meetings\<close> matches exactly the rows whose title contains
  \<open>team\<close> in any letter case, with no clause on the participants; get returns, in the
  order of the scheduled date, the first \<open>limit\<close> (10 when absent) of the rows that also
  pass the date clause and the location clause, and its count is their number.
\<close>

theorem tool_team_filter:
  assumes "tp_meeting_type ps = Some ''team''"
  shows "(\<forall>m. tool_type_clause (tp_meeting_type ps) m \<longleftrightarrow> title_has_team m)
         \<and> gr_meetings (execute_get_meetings ps rows) =
             map to_dict
               (sql_limit (case tp_limit ps of None \<Rightarrow> 10 | Some n \<Rightarrow> n)
                 (sort_key m_scheduled_date
                   (filter (\<lambda>m. tool_date_clause
                                  (case tp_date_filter ps of
                                     None \<Rightarrow> empty_tool_date_filter | Some df \<Rightarrow> df) m
                                \<and> title_has_team m
                                \<and> location_clause (tp_location ps) m) rows)))
         \<and> gr_count (execute_get_meetings ps rows)
             = length (gr_meetings (execute_get_meetings ps rows))"
proof (intro conjI allI)
  fix m
  show "tool_type_clause (tp_meeting_type ps) m \<longleftrightarrow> title_has_team m"
    using assms by (simp add: tool_team_clause)
next
  define tdf where
    "tdf = (case tp_date_filter ps of None \<Rightarrow> empty_tool_date_filter | Some df \<Rightarrow> df)"
  have d: "(case (tf_start tdf, tf_end tdf) of
              (Some s, Some e) \<Rightarrow> filter (in_range s e) rows
            | _ \<Rightarrow> rows) = filter (tool_date_clause tdf) rows"
  proof (cases "\<exists>s e. tf_start tdf = Some s \<and> tf_end tdf = Some e")
    case True
    then obtain s e where se: "tf_start tdf = Some s" "tf_end tdf = Some e" by blast
    then have "tool_date_clause tdf = in_range s e"
      by (auto simp: tool_date_clause_def fun_eq_iff)
    with se show ?thesis by simp
  next
    case False
    then have "tool_date_clause tdf = (\<lambda>m. True)"
      by (auto simp: tool_date_clause_def fun_eq_iff)
    moreover from False have "(case (tf_start tdf, tf_end tdf) of
              (Some s, Some e) \<Rightarrow> filter (in_range s e) rows
            | _ \<Rightarrow> rows) = rows"
      by (auto split: option.splits)
    ultimately show ?thesis by simp
  qed
  show "gr_meetings (execute_get_meetings ps rows) =
          map to_dict
            (sql_limit (case tp_limit ps of None \<Rightarrow> 10 | Some n \<Rightarrow> n)
              (sort_key m_scheduled_date
                (filter (\<lambda>m. tool_date_clause
                               (case tp_date_filter ps of
                                  None \<Rightarrow> empty_tool_date_filter | Some df \<Rightarrow> df) m
                             \<and> title_has_team m
                             \<and> location_clause (tp_location ps) m) rows)))"
    using assms d
    by (simp add: execute_get_meetings_def tool_team_clause Let_def tdf_def
        cong: filter_cong)
next
  show "gr_count (execute_get_meetings ps rows)
          = length (gr_meetings (execute_get_meetings ps rows))"
    by (simp add: execute_get_meetings_def Let_def)
qed

text \<open>
  The amended statement on the example store, without a date bound and with the limit 10:
  the row with participants and the title \<open>Standup\<close> is not returned.
\<close>

theorem tool_team_filter_witness:
  "tp_meeting_type team_tool_params = Some ''team''
   \<and> gr_meetings (execute_get_meetings team_tool_params example_store) = [to_dict meeting_a]
   \<and> [to_dict meeting_a] =
         map to_dict
           (sql_limit 10
             (sort_key m_scheduled_date
               (filter (\<lambda>m. tool_date_clause
                              \<lparr> tf_type = Some ''all'', tf_start = None, tf_end = None \<rparr> m
                            \<and> title_has_team m \<and> location_clause None m) example_store)))
   \<and> gr_count (execute_get_meetings team_tool_params example_store) = 1"
proof -
  have b1: "tp_meeting_type team_tool_params = Some ''team''"
    by (simp add: team_tool_params_def)
  have g: "gr_meetings (execute_get_meetings team_tool_params example_store) = [to_dict meeting_a]"
    by (simp add: execute_get_meetings_def example_defs tool_type_clause_def
        ilike_def lower_def lower_char_def location_clause_def sql_limit_def
        empty_tool_date_filter_def combine_def usec_per_day_def)
  have p: "tp_limit team_tool_params = Some 10"
      "tp_date_filter team_tool_params
         = Some \<lparr> tf_type = Some ''all'', tf_start = None, tf_end = None \<rparr>"
      "tp_location team_tool_params = None"
    by (simp_all add: team_tool_params_def)
  show ?thesis
    using tool_team_filter [OF b1, of example_store] b1 g p
    by simp
qed

text \<open>
  C10. When \<open>get_meetings\<close> is given a date that is none of \<open>today\<close>,
  \<open>tomorrow\<close>, \<open>yesterday\<close> and that \<open>strptime\<close> rejects, the query has no date
  clause: \<open>DatabaseTool.get_meetings\<close> returns what it returns without a date, the rows
  that pass the location clause in the order of the scheduled date, and
  \<open>DatabaseAgent.get_meetings\<close> returns every row. \<open>SchedulingAgent._parse_date\<close> maps
  the same string to the midnight of the day after today.
\<close>

theorem get_meetings_drops_unparseable_date:
  assumes "date \<noteq> ''today''" and "date \<noteq> ''tomorrow''" and "date \<noteq> ''yesterday''"
    and "strptime_ymd date = Inl e"
  shows "tool_get_meetings today db (Some date) location
           = tool_get_meetings today db None location
         \<and> tool_get_meetings today db (Some date) location
             = map to_dict (sort_key m_scheduled_date (filter (location_clause location) db))
         \<and> agent_get_meetings today db (Some date) = map agent_dict db
         \<and> (valid_date today \<and> today < date_max_ordinal \<longrightarrow>
              parse_date today date = Inr (combine (today + 1) time_min))"
proof -
  have t: "tool_target_date today date = Inl e"
    using assms by (rule tool_target_date_fails)
  have a: "agent_target_date today date = Inl e"
    using assms(1,2,4) by (rule agent_target_date_fails)
  have 1: "tool_get_meetings today db (Some date) location
             = map to_dict (sort_key m_scheduled_date (filter (location_clause location) db))"
    using t by (simp add: tool_get_meetings_def)
  have 2: "tool_get_meetings today db None location
             = map to_dict (sort_key m_scheduled_date (filter (location_clause location) db))"
    by (simp add: tool_get_meetings_def)
  have 3: "agent_get_meetings today db (Some date) = map agent_dict db"
    using a by (simp add: agent_get_meetings_def)
  have 4: "valid_date today \<and> today < date_max_ordinal \<longrightarrow>
              parse_date today date = Inr (combine (today + 1) time_min)"
    using assms by (simp add: parse_date_def bind_exn_def date_add_days_ok valid_date_succ)
  from 1 2 3 4 show ?thesis by simp
qed

text \<open>
  The theorem at the string \<open>2024-13-45\<close> on the example store; the date
  \<open>tomorrow\<close> keeps the two rows of that day only.
\<close>

theorem get_meetings_drops_unparseable_date_witness:
  "strptime_ymd ''2024-13-45'' = Inl (ValueError ''does not match format'')
   \<and> tool_get_meetings 739923 example_store (Some ''2024-13-45'') (Some ''london'')
       = [to_dict meeting_a, to_dict meeting_c]
   \<and> tool_get_meetings 739923 example_store (Some ''2024-13-45'') None
       = [to_dict meeting_b, to_dict meeting_a, to_dict meeting_c]
   \<and> tool_get_meetings 739923 example_store (Some ''tomorrow'') None
       = [to_dict meeting_b, to_dict meeting_a]
   \<and> parse_date 739923 ''2024-13-45'' = Inr (combine 739924 time_min)"
proof -
  have h1: "''2024-13-45'' \<noteq> ''today''" by simp
  have h2: "''2024-13-45'' \<noteq> ''tomorrow''" by simp
  have h3: "''2024-13-45'' \<noteq> ''yesterday''" by simp
  have h4: "strptime_ymd ''2024-13-45'' = Inl (ValueError ''does not match format'')"
    by (simp add: strptime_ymd_def is_digit_def digit_val_def)
  have v: "valid_date 739923 \<and> 739923 < date_max_ordinal"
    by (simp add: valid_date_def date_min_ordinal_def date_max_ordinal_def)
  have s1: "map to_dict (sort_key m_scheduled_date
              (filter (location_clause (Some ''london'')) example_store))
            = [to_dict meeting_a, to_dict meeting_c]"
    by (simp add: example_defs location_clause_def ilike_def lower_def lower_char_def
        combine_def usec_per_day_def)
  have s2: "map to_dict (sort_key m_scheduled_date
              (filter (location_clause None) example_store))
            = [to_dict meeting_b, to_dict meeting_a, to_dict meeting_c]"
    by (simp add: example_defs location_clause_def combine_def usec_per_day_def)
  have s3: "tool_get_meetings 739923 example_store (Some ''tomorrow'') None
              = [to_dict meeting_b, to_dict meeting_a]"
    by (simp add: tool_get_meetings_def tool_target_date_def date_add_days_def valid_date_def
        date_min_ordinal_def date_max_ordinal_def example_defs location_clause_def
        in_range_def combine_def usec_per_day_def time_min_def time_max_def)
  note t1 = get_meetings_drops_unparseable_date
            [OF h1 h2 h3 h4, of 739923 example_store "Some ''london''"]
  note t2 = get_meetings_drops_unparseable_date
            [OF h1 h2 h3 h4, of 739923 example_store None]
  have r1: "tool_get_meetings 739923 example_store (Some ''2024-13-45'') (Some ''london'')
              = [to_dict meeting_a, to_dict meeting_c]"
    by (rule trans [OF t1 [THEN conjunct2, THEN conjunct1] s1])
  have r2: "tool_get_meetings 739923 example_store (Some ''2024-13-45'') None
              = [to_dict meeting_b, to_dict meeting_a, to_dict meeting_c]"
    by (rule trans [OF t2 [THEN conjunct2, THEN conjunct1] s2])
  have r3: "parse_date 739923 ''2024-13-45'' = Inr (combine 739924 time_min)"
    using t1 [THEN conjunct2, THEN conjunct2, THEN conjunct2] v by simp
  from h4 r1 r2 s3 r3 show ?thesis by (intro conjI)
qed

text \<open>
  C2. \<open>process\<close> never raises: it always returns a dictionary, and when a step of
  its \<open>try\<close> block raises \<open>e\<close>, the dictionary is the error response built from
  \<open>e\<close>, whose \<open>agent\<close> is \<open>error\<close> and whose \<open>confidence\<close> is 0.
\<close>

theorem process_never_raises:
  "(\<exists>r. process c now message cid db = Inr r)
   \<and> (\<forall>e. process_body c now message cid db = Inl e \<longrightarrow>
         process c now message cid db = Inr (error_response e)
         \<and> error_response e ''agent'' = Some (PStr ''error'')
         \<and> error_response e ''confidence'' = Some (PInt 0))"
  by (auto simp: process_cases error_response_fields split: sum.splits)

text \<open>
  The theorem at a message whose handler raises, and at the class as the source has it,
  where the lookup of \<open>_determine_agent\<close> raises.
\<close>

theorem process_never_raises_witness:
  "process_body example_collaborators ''2026-11-03T10:00:00'' ''any meeting today?'' None
       (Some session_ok) = Inl (StoreError ''no such table: meetings'')
   \<and> process example_collaborators ''2026-11-03T10:00:00'' ''any meeting today?'' None
       (Some session_ok) = Inr (error_response (StoreError ''no such table: meetings''))
   \<and> process_body source_collaborators ''2026-11-03T10:00:00'' ''hello'' None None
       = Inl (missing_method ''_determine_agent'')
   \<and> process source_collaborators ''2026-11-03T10:00:00'' ''hello'' None None
       = Inr (error_response (missing_method ''_determine_agent''))"
proof -
  have b1: "process_body example_collaborators ''2026-11-03T10:00:00'' ''any meeting today?''
              None (Some session_ok) = Inl (StoreError ''no such table: meetings'')"
    by (simp add: orchestrator_defs orchestrator_example_defs lower_def lower_char_def)
  have b2: "process_body source_collaborators ''2026-11-03T10:00:00'' ''hello'' None None
              = Inl (missing_method ''_determine_agent'')"
    by (simp add: process_body_def bind_exn_def source_collaborators_def)
  show ?thesis
    using process_never_raises [of example_collaborators "''2026-11-03T10:00:00''"
            "''any meeting today?''" None "Some session_ok"]
          process_never_raises [of source_collaborators "''2026-11-03T10:00:00''"
            "''hello''" None None] b1 b2
    by simp
qed

text \<open>
  C8, as stated, fails on the internal-error branch: the dictionary returned there has no
  timestamp, no echo of the message and no \<open>agent_used\<close>.
\<close>

theorem error_branch_envelope_counterexample:
  "process example_collaborators ''2026-11-03T10:00:00'' ''any meeting today?'' None
       (Some session_ok) = Inr (error_response (StoreError ''no such table: meetings''))
   \<and> error_response (StoreError ''no such table: meetings'') ''timestamp'' = None
   \<and> error_response (StoreError ''no such table: meetings'') ''original_message'' = None
   \<and> error_response (StoreError ''no such table: meetings'') ''agent_used'' = None
   \<and> process source_collaborators ''2026-11-03T10:00:00'' ''hello'' None None
       = Inr (error_response (missing_method ''_determine_agent''))
   \<and> error_response (missing_method ''_determine_agent'') ''timestamp'' = None
   \<and> error_response (missing_method ''_determine_agent'') ''original_message'' = None"
proof -
  have b1: "process example_collaborators ''2026-11-03T10:00:00'' ''any meeting today?''
              None (Some session_ok) = Inr (error_response (StoreError ''no such table: meetings''))"
    by (simp add: orchestrator_defs orchestrator_example_defs lower_def lower_char_def)
  have b2: "process source_collaborators ''2026-11-03T10:00:00'' ''hello'' None None
              = Inr (error_response (missing_method ''_determine_agent''))"
    by (simp add: process_def process_body_def bind_exn_def source_collaborators_def)
  from b1 b2 show ?thesis
    by (simp add: error_response_fields)
qed

text \<open>
  C8, amended. When no step raises, \<open>process\<close> returns the response of the handler that
  the agent type selects (the general handler for every other agent type), with
  \<open>agent_used\<close> set to the agent type, \<open>conversation_id\<close> to the conversation id,
  \<open>timestamp\<close> to the clock and \<open>original_message\<close> to the message, and every other
  key as the handler left it. When a step raises \<open>e\<close>, it returns the dictionary with
  \<open>agent\<close> \<open>error\<close>, the text of \<open>e\<close> in \<open>response\<close>, \<open>confidence\<close> 0 and the
  fixed \<open>suggestion\<close>, and nothing else: no timestamp and no echo of the message.
\<close>

theorem process_envelope_by_branch:
  "(case process_body c now message cid db of
      Inr r \<Rightarrow>
        process c now message cid db = Inr r
        \<and> (\<exists>a r0.
              determine_agent c message = Inr a
              \<and> (if a = ''weather'' then handle_weather c message = Inr r0
                  else if a = ''document'' then handle_document c message = Inr r0
                  else if a = ''scheduling'' then
                    (\<exists>d. handle_scheduling c message db = Inr (r0, d))
                  else if a = ''database'' then
                    (\<exists>d. handle_database c message db = Inr (r0, d))
                  else handle_general c message = Inr r0)
              \<and> r = r0(''agent_used'' \<mapsto> PStr a,
                       ''conversation_id'' \<mapsto>
                          (case cid of None \<Rightarrow> PNone | Some i \<Rightarrow> PStr i),
                       ''timestamp'' \<mapsto> PStr now,
                       ''original_message'' \<mapsto> PStr message))
    | Inl e \<Rightarrow>
        process c now message cid db
          = Inr [''agent'' \<mapsto> PStr ''error'',
                 ''response'' \<mapsto> PStr (''Sorry, I encountered an error: '' @ str_exn e),
                 ''confidence'' \<mapsto> PInt 0,
                 ''suggestion'' \<mapsto> PStr ''Please try rephrasing your question.'']
        \<and> (\<forall>k. k \<notin> {''agent'', ''response'', ''confidence'', ''suggestion''} \<longrightarrow>
               (\<forall>r. process c now message cid db = Inr r \<longrightarrow> r k = None)))"
proof (cases "process_body c now message cid db")
  case (Inl e)
  then have p: "process c now message cid db = Inr (error_response e)"
    by (simp add: process_cases)
  have "\<And>k. k \<notin> {''agent'', ''response'', ''confidence'', ''suggestion''}
          \<Longrightarrow> error_response e k = None"
    using dom_error_response [of e] by blast
  with Inl p show ?thesis
    by (simp add: error_response_def)
next
  case (Inr r)
  then obtain a r0 db' where a: "determine_agent c message = Inr a"
      and rt: "route c a message db = Inr (r0, db')"
      and r: "r = add_metadata r0 a cid now message"
    using process_body_Inr by blast
  from route_Inr [OF rt] a r
  have "\<exists>a r0.
          determine_agent c message = Inr a
          \<and> (if a = ''weather'' then handle_weather c message = Inr r0
              else if a = ''document'' then handle_document c message = Inr r0
              else if a = ''scheduling'' then
                (\<exists>d. handle_scheduling c message db = Inr (r0, d))
              else if a = ''database'' then
                (\<exists>d. handle_database c message db = Inr (r0, d))
              else handle_general c message = Inr r0)
          \<and> r = r0(''agent_used'' \<mapsto> PStr a,
                   ''conversation_id'' \<mapsto>
                      (case cid of None \<Rightarrow> PNone | Some i \<Rightarrow> PStr i),
                   ''timestamp'' \<mapsto> PStr now,
                   ''original_message'' \<mapsto> PStr message)"
    unfolding add_metadata_def by blast
  with Inr show ?thesis
    by (simp add: process_cases)
qed

text \<open>
  The amended statement on both branches: a greeting routed to the general handler, and a
  message whose handler raises.
\<close>

theorem process_envelope_by_branch_witness:
  "process example_collaborators ''2026-11-03T10:00:00'' ''hello'' (Some ''c1'') (Some session_ok)
     = Inr (greeting(''agent_used'' \<mapsto> PStr ''general'', ''conversation_id'' \<mapsto> PStr ''c1'',
                     ''timestamp'' \<mapsto> PStr ''2026-11-03T10:00:00'',
                     ''original_message'' \<mapsto> PStr ''hello''))
   \<and> process example_collaborators ''2026-11-03T10:00:00'' ''any meeting today?'' None
       (Some session_ok)
     = Inr [''agent'' \<mapsto> PStr ''error'',
            ''response'' \<mapsto>
               PStr ''Sorry, I encountered an error: no such table: meetings'',
            ''confidence'' \<mapsto> PInt 0,
            ''suggestion'' \<mapsto> PStr ''Please try rephrasing your question.'']"
proof -
  have b1: "process_body example_collaborators ''2026-11-03T10:00:00'' ''hello'' (Some ''c1'')
              (Some session_ok)
            = Inr (greeting(''agent_used'' \<mapsto> PStr ''general'',
                            ''conversation_id'' \<mapsto> PStr ''c1'',
                            ''timestamp'' \<mapsto> PStr ''2026-11-03T10:00:00'',
                            ''original_message'' \<mapsto> PStr ''hello''))"
    by (simp add: orchestrator_defs orchestrator_example_defs lower_def lower_char_def)
  have b2: "process_body example_collaborators ''2026-11-03T10:00:00'' ''any meeting today?''
              None (Some session_ok) = Inl (StoreError ''no such table: meetings'')"
    by (simp add: orchestrator_defs orchestrator_example_defs lower_def lower_char_def)
  note t1 = process_envelope_by_branch [of example_collaborators "''2026-11-03T10:00:00''"
            "''hello''" "Some ''c1''" "Some session_ok"]
  note t2 = process_envelope_by_branch [of example_collaborators "''2026-11-03T10:00:00''"
            "''any meeting today?''" None "Some session_ok"]
  have r1: "process example_collaborators ''2026-11-03T10:00:00'' ''hello'' (Some ''c1'')
              (Some session_ok)
            = Inr (greeting(''agent_used'' \<mapsto> PStr ''general'',
                            ''conversation_id'' \<mapsto> PStr ''c1'',
                            ''timestamp'' \<mapsto> PStr ''2026-11-03T10:00:00'',
                            ''original_message'' \<mapsto> PStr ''hello''))"
    using t1 unfolding b1 by simp
  have r2: "process example_collaborators ''2026-11-03T10:00:00'' ''any meeting today?'' None
              (Some session_ok)
            = Inr [''agent'' \<mapsto> PStr ''error'',
                   ''response'' \<mapsto>
                      PStr ''Sorry, I encountered an error: no such table: meetings'',
                   ''confidence'' \<mapsto> PInt 0,
                   ''suggestion'' \<mapsto> PStr ''Please try rephrasing your question.'']"
    using t2 unfolding b2 by simp
  from r1 r2 show ?thesis by (intro conjI)
qed

text \<open>
  C9 holds when the rollback returns and fails when it raises. With the session that
  commits and with the session whose commit fails, \<open>process\<close> returns the same response;
  with the session whose commit and rollback both fail, it returns the error response
  instead, which is a different dictionary.
\<close>

theorem log_write_failure_with_failing_rollback:
  "process example_collaborators ''2026-11-03T10:00:00'' ''hello'' None (Some session_ok)
     = Inr (add_metadata greeting ''general'' None ''2026-11-03T10:00:00'' ''hello'')
   \<and> process example_collaborators ''2026-11-03T10:00:00'' ''hello'' None
       (Some session_commit_fails)
     = Inr (add_metadata greeting ''general'' None ''2026-11-03T10:00:00'' ''hello'')
   \<and> process example_collaborators ''2026-11-03T10:00:00'' ''hello'' None (Some session_lost)
     = Inr (error_response (StoreError ''connection lost''))
   \<and> add_metadata greeting ''general'' None ''2026-11-03T10:00:00'' ''hello''
       \<noteq> error_response (StoreError ''connection lost'')"
proof -
  have d: "determine_agent example_collaborators ''hello'' = Inr ''general''"
    by (simp add: example_collaborators_def lower_def lower_char_def)
  have r: "\<And>s. route example_collaborators ''general'' ''hello'' (Some s) = Inr (greeting, Some s)"
    by (simp add: route_def example_collaborators_def bind_exn_def)
  have 1: "process example_collaborators ''2026-11-03T10:00:00'' ''hello'' None (Some session_ok)
     = Inr (add_metadata greeting ''general'' None ''2026-11-03T10:00:00'' ''hello'')"
    by (rule log_write_frame [OF d r]) (simp add: session_ok_def)
  have 2: "process example_collaborators ''2026-11-03T10:00:00'' ''hello'' None
       (Some session_commit_fails)
     = Inr (add_metadata greeting ''general'' None ''2026-11-03T10:00:00'' ''hello'')"
    by (rule log_write_frame [OF d r]) (simp add: session_commit_fails_def session_ok_def)
  have 3: "process example_collaborators ''2026-11-03T10:00:00'' ''hello'' None (Some session_lost)
     = Inr (error_response (StoreError ''connection lost''))"
    by (rule log_write_rollback_failure [OF d r])
       (simp_all add: session_lost_def session_ok_def)
  have "add_metadata greeting ''general'' None ''2026-11-03T10:00:00'' ''hello'' ''timestamp''
          \<noteq> error_response (StoreError ''connection lost'') ''timestamp''"
    by (simp add: add_metadata_fields error_response_fields)
  then have 4: "add_metadata greeting ''general'' None ''2026-11-03T10:00:00'' ''hello''
       \<noteq> error_response (StoreError ''connection lost'')"
    by metis
  from 1 2 3 4 show ?thesis by (intro conjI)
qed

end
